theory Spec2Isabelle
  imports Complex_Main "HOL-Library.Sublist"
begin

section \<open>HTTP plumbing shared by the route handlers\<close>

text \<open>
  A route handler answers with \<^verbatim>\<open>NextResponse.json(body, { status })\<close>; when no status is
  given the status is 200. A JavaScript string is modelled by its UTF-8 bytes (strings
  are taken to be well formed, so two strings are equal exactly when their bytes are);
  the non-ASCII icons of the source are written as their bytes.
\<close>

record 'b response =
  status :: nat
  body :: 'b

definition json_response :: "'b \<Rightarrow> 'b response" where
  "json_response b = \<lparr>status = 200, body = b\<rparr>"

definition json_response_status :: "'b \<Rightarrow> nat \<Rightarrow> 'b response" where
  "json_response_status b st = \<lparr>status = st, body = b\<rparr>"

text \<open>
  The query string of a request, as the list of its name/value pairs in order.
  \<^verbatim>\<open>searchParams.get(name)\<close> is the first value stored under the name, or null.
\<close>

type_synonym searchParams = "(string \<times> string) list"

definition searchParams_get :: "searchParams \<Rightarrow> string \<Rightarrow> string option" where
  "searchParams_get ps n = map_of ps n"

text \<open>
  A string that may be null or undefined is truthy when it is present and not empty;
  \<open>or_default x d\<close> is \<^verbatim>\<open>x || d\<close>.
\<close>

fun string_truthy :: "string option \<Rightarrow> bool" where
  "string_truthy None = False"
| "string_truthy (Some s) = (s \<noteq> [])"

fun or_default :: "string option \<Rightarrow> string \<Rightarrow> string" where
  "or_default None d = d"
| "or_default (Some s) d = (if s = [] then d else s)"

text \<open>
  An object used as a dictionary (\<^verbatim>\<open>Record<string, ...>\<close>) is modelled as an association
  list with distinct keys, in the order in which JavaScript enumerates them: first the
  keys that are array indices (the decimal numerals of 0 to 4294967294, without leading
  zeros) by ascending value, then the other keys in insertion order.
\<close>

type_synonym 'v js_record = "(string \<times> 'v) list"

definition is_digit :: "char \<Rightarrow> bool" where
  "is_digit c \<longleftrightarrow> 48 \<le> (of_char c :: nat) \<and> (of_char c :: nat) \<le> 57"

definition decimal_value :: "string \<Rightarrow> nat" where
  "decimal_value k = foldl (\<lambda>a c. 10 * a + (of_char c - 48)) 0 k"

fun array_index :: "string \<Rightarrow> nat option" where
  "array_index [] = None"
| "array_index (c # cs) =
     (if list_all is_digit (c # cs) \<and> (c \<noteq> CHR ''0'' \<or> cs = [])
         \<and> decimal_value (c # cs) < 4294967295
      then Some (decimal_value (c # cs)) else None)"

text \<open>\<open>enumerated_before k k'\<close>: a new key \<open>k\<close> is enumerated before the key \<open>k'\<close>.\<close>

definition enumerated_before :: "string \<Rightarrow> string \<Rightarrow> bool" where
  "enumerated_before k k' =
    (case array_index k of
       None \<Rightarrow> False
     | Some n \<Rightarrow> (case array_index k' of None \<Rightarrow> True | Some m \<Rightarrow> n < m))"

text \<open>
  \<open>record_put\<close> is the assignment \<^verbatim>\<open>acc[k] = v\<close>: the value of a key that is present is
  replaced where it stands, a new key takes its place in the enumeration order.
\<close>

fun record_put :: "'v js_record \<Rightarrow> string \<Rightarrow> 'v \<Rightarrow> 'v js_record" where
  "record_put [] k v = [(k, v)]"
| "record_put ((k', v') # r) k v =
     (if k' = k then (k, v) # r
      else if enumerated_before k k' \<and> map_of r k = None then (k, v) # (k', v') # r
      else (k', v') # record_put r k v)"


section \<open>Career match route (frontend/app/api/career/match/route.ts)\<close>

record career =
  c_id :: string
  c_title :: string
  c_icon :: string
  salaryRange :: string
  matchScore :: int
  c_description :: string

definition mockCareers :: "career list" where
  "mockCareers =
    [ \<lparr>c_id = ''1'', c_title = ''Software Engineer'',
        c_icon = [CHR 0xF0, CHR 0x9F, CHR 0x92, CHR 0xBB],
        salaryRange = ''$80k - $150k'', matchScore = 95,
        c_description = ''Build and maintain software applications''\<rparr>,
      \<lparr>c_id = ''2'', c_title = ''Data Scientist'',
        c_icon = [CHR 0xF0, CHR 0x9F, CHR 0x93, CHR 0x8A],
        salaryRange = ''$90k - $160k'', matchScore = 88,
        c_description = ''Analyze data to drive business decisions''\<rparr>,
      \<lparr>c_id = ''3'', c_title = ''UX Designer'',
        c_icon = [CHR 0xF0, CHR 0x9F, CHR 0x8E, CHR 0xA8],
        salaryRange = ''$70k - $130k'', matchScore = 82,
        c_description = ''Design user-centered digital experiences''\<rparr>,
      \<lparr>c_id = ''4'', c_title = ''Product Manager'',
        c_icon = [CHR 0xF0, CHR 0x9F, CHR 0x9A, CHR 0x80],
        salaryRange = ''$100k - $180k'', matchScore = 78,
        c_description = ''Guide product development and strategy''\<rparr>,
      \<lparr>c_id = ''5'', c_title = ''DevOps Engineer'',
        c_icon = [CHR 0xE2, CHR 0x9A, CHR 0x99, CHR 0xEF, CHR 0xB8, CHR 0x8F],
        salaryRange = ''$85k - $155k'', matchScore = 75,
        c_description = ''Streamline development and deployment processes''\<rparr> ]"

record match_body =
  careers :: "career list"

text \<open>
  The handler reads the \<^verbatim>\<open>answers\<close> parameter, waits, and returns the mock careers. The
  delay has no effect on the value returned and is not modelled.
\<close>

definition match_GET :: "searchParams \<Rightarrow> match_body response" where
  "match_GET params =
    (let answers = searchParams_get params ''answers''
     in json_response \<lparr>careers = mockCareers\<rparr>)"


section \<open>Career roadmap route (app/api/career/roadmap/route.ts)\<close>

record lesson =
  l_id :: string
  l_title :: string
  completed :: bool
  hours :: int

record milestone =
  m_id :: string
  level :: string
  m_title :: string
  estimatedHours :: int
  lessons :: "lesson list"

record roadmap =
  role :: string
  milestones :: "milestone list"

definition mockMilestones :: "milestone list" where
  "mockMilestones =
    [ \<lparr>m_id = ''1'', level = ''Foundational'', m_title = ''Programming Basics'',
        estimatedHours = 120,
        lessons =
          [ \<lparr>l_id = ''1'', l_title = ''Variables and Data Types'', completed = True, hours = 8\<rparr>,
            \<lparr>l_id = ''2'', l_title = ''Control Structures'', completed = True, hours = 12\<rparr>,
            \<lparr>l_id = ''3'', l_title = ''Functions and Scope'', completed = False, hours = 10\<rparr>,
            \<lparr>l_id = ''4'', l_title = ''Object-Oriented Programming'', completed = False,
              hours = 15\<rparr> ]\<rparr>,
      \<lparr>m_id = ''2'', level = ''Intermediate'', m_title = ''Web Development'',
        estimatedHours = 200,
        lessons =
          [ \<lparr>l_id = ''5'', l_title = ''HTML & CSS Fundamentals'', completed = False, hours = 20\<rparr>,
            \<lparr>l_id = ''6'', l_title = ''JavaScript ES6+'', completed = False, hours = 25\<rparr>,
            \<lparr>l_id = ''7'', l_title = ''React Framework'', completed = False, hours = 30\<rparr>,
            \<lparr>l_id = ''8'', l_title = ''API Integration'', completed = False, hours = 18\<rparr> ]\<rparr>,
      \<lparr>m_id = ''3'', level = ''Advanced'', m_title = ''System Design & Architecture'',
        estimatedHours = 150,
        lessons =
          [ \<lparr>l_id = ''9'', l_title = ''Database Design'', completed = False, hours = 25\<rparr>,
            \<lparr>l_id = ''10'', l_title = ''Microservices Architecture'', completed = False,
              hours = 30\<rparr>,
            \<lparr>l_id = ''11'', l_title = ''Performance Optimization'', completed = False,
              hours = 20\<rparr>,
            \<lparr>l_id = ''12'', l_title = ''Security Best Practices'', completed = False,
              hours = 22\<rparr> ]\<rparr> ]"

text \<open>
  \<^verbatim>\<open>role: role || "Software Engineer"\<close>: the role parameter is echoed when it is present
  and not empty. The milestones do not depend on it.
\<close>

definition roadmap_GET :: "searchParams \<Rightarrow> roadmap response" where
  "roadmap_GET params =
    (let r = searchParams_get params ''role''
     in json_response
          \<lparr>role = or_default r ''Software Engineer'', milestones = mockMilestones\<rparr>)"


section \<open>Career page: selected skills and interests (app/career/page.tsx)\<close>

datatype icon = Code | Palette | BarChart3 | Users | Globe | Zap | Target

record skill =
  name :: string
  category :: string
  icon :: icon

definition skillSuggestions :: "skill list" where
  "skillSuggestions =
    [ \<lparr>name = ''JavaScript'', category = ''Technology'', icon = Code\<rparr>,
      \<lparr>name = ''Python'', category = ''Technology'', icon = Code\<rparr>,
      \<lparr>name = ''React'', category = ''Technology'', icon = Code\<rparr>,
      \<lparr>name = ''Node.js'', category = ''Technology'', icon = Code\<rparr>,
      \<lparr>name = ''SQL'', category = ''Technology'', icon = BarChart3\<rparr>,
      \<lparr>name = ''Machine Learning'', category = ''Technology'', icon = Zap\<rparr>,
      \<lparr>name = ''UI/UX Design'', category = ''Design'', icon = Palette\<rparr>,
      \<lparr>name = ''Graphic Design'', category = ''Design'', icon = Palette\<rparr>,
      \<lparr>name = ''Figma'', category = ''Design'', icon = Palette\<rparr>,
      \<lparr>name = ''Adobe Creative Suite'', category = ''Design'', icon = Palette\<rparr>,
      \<lparr>name = ''Data Analysis'', category = ''Analytics'', icon = BarChart3\<rparr>,
      \<lparr>name = ''Excel'', category = ''Analytics'', icon = BarChart3\<rparr>,
      \<lparr>name = ''Tableau'', category = ''Analytics'', icon = BarChart3\<rparr>,
      \<lparr>name = ''Google Analytics'', category = ''Analytics'', icon = BarChart3\<rparr>,
      \<lparr>name = ''Project Management'', category = ''Management'', icon = Target\<rparr>,
      \<lparr>name = ''Leadership'', category = ''Management'', icon = Users\<rparr>,
      \<lparr>name = ''Communication'', category = ''Management'', icon = Users\<rparr>,
      \<lparr>name = ''Digital Marketing'', category = ''Marketing'', icon = Globe\<rparr>,
      \<lparr>name = ''SEO'', category = ''Marketing'', icon = Globe\<rparr>,
      \<lparr>name = ''Content Writing'', category = ''Marketing'', icon = Globe\<rparr> ]"

text \<open>
  The component state. The four fields of \<open>selection\<close> are declared, with the same
  handlers, by both \<^verbatim>\<open>CareerPage\<close> and \<^verbatim>\<open>RoadmapGeneratorPage\<close>; each page extends
  them with its own fields.
\<close>

record selection =
  selectedSkills :: "string list"
  selectedInterests :: "string list"
  customSkill :: string
  customInterest :: string

record career_page = selection +
  showAssessment :: bool
  currentStep :: int
  answers :: "(int \<times> string) list"
  showResults :: bool
  isLoading :: bool
  targetRole :: string

record roadmap_generator_page = selection +
  careerGoal :: string
  timeline :: string
  currentRole :: string

subsection \<open>\<^verbatim>\<open>String.prototype.trim\<close>\<close>

text \<open>
  The white space and line terminator code points that \<^verbatim>\<open>trim\<close> strips, each as its
  UTF-8 byte sequence: U+0009 to U+000D, U+0020, U+00A0, U+1680, U+2000 to U+200A,
  U+2028, U+2029, U+202F, U+205F, U+3000 and U+FEFF.
\<close>

definition whiteSpace :: "string list" where
  "whiteSpace =
    [ [CHR 0x09], [CHR 0x0A], [CHR 0x0B], [CHR 0x0C], [CHR 0x0D], [CHR 0x20],
      [CHR 0xC2, CHR 0xA0],
      [CHR 0xE1, CHR 0x9A, CHR 0x80],
      [CHR 0xE2, CHR 0x80, CHR 0x80], [CHR 0xE2, CHR 0x80, CHR 0x81],
      [CHR 0xE2, CHR 0x80, CHR 0x82], [CHR 0xE2, CHR 0x80, CHR 0x83],
      [CHR 0xE2, CHR 0x80, CHR 0x84], [CHR 0xE2, CHR 0x80, CHR 0x85],
      [CHR 0xE2, CHR 0x80, CHR 0x86], [CHR 0xE2, CHR 0x80, CHR 0x87],
      [CHR 0xE2, CHR 0x80, CHR 0x88], [CHR 0xE2, CHR 0x80, CHR 0x89],
      [CHR 0xE2, CHR 0x80, CHR 0x8A],
      [CHR 0xE2, CHR 0x80, CHR 0xA8], [CHR 0xE2, CHR 0x80, CHR 0xA9],
      [CHR 0xE2, CHR 0x80, CHR 0xAF],
      [CHR 0xE2, CHR 0x81, CHR 0x9F],
      [CHR 0xE3, CHR 0x80, CHR 0x80],
      [CHR 0xEF, CHR 0xBB, CHR 0xBF] ]"

lemma whiteSpace_nonempty: "w \<in> set whiteSpace \<Longrightarrow> 0 < length w"
  by (auto simp: whiteSpace_def)

lemma find_whiteSpace_nonempty: "find P whiteSpace = Some w \<Longrightarrow> 0 < length w"
  by (rule whiteSpace_nonempty) (auto simp: find_Some_iff in_set_conv_nth)

function trimStart :: "string \<Rightarrow> string" where
  "trimStart s =
    (case find (\<lambda>w. prefix w s) whiteSpace of
       None \<Rightarrow> s
     | Some w \<Rightarrow> trimStart (drop (length w) s))"
  by pat_completeness auto
termination
proof (relation "measure length")
  show "wf (measure length)" by simp
next
  fix s w
  assume f: "find (\<lambda>w. prefix w s) whiteSpace = Some w"
  then have "0 < length w" by (rule find_whiteSpace_nonempty)
  moreover from f have "prefix w s" by (auto simp: find_Some_iff)
  then have "length w \<le> length s" by (rule prefix_length_le)
  ultimately have "length (drop (length w) s) < length s"
    by (simp only: length_drop)
  then show "(drop (length w) s, s) \<in> measure length" by simp
qed

function trimEnd :: "string \<Rightarrow> string" where
  "trimEnd s =
    (case find (\<lambda>w. suffix w s) whiteSpace of
       None \<Rightarrow> s
     | Some w \<Rightarrow> trimEnd (take (length s - length w) s))"
  by pat_completeness auto
termination
proof (relation "measure length")
  show "wf (measure length)" by simp
next
  fix s w
  assume f: "find (\<lambda>w. suffix w s) whiteSpace = Some w"
  then have "0 < length w" by (rule find_whiteSpace_nonempty)
  moreover from f have "suffix w s" by (auto simp: find_Some_iff)
  then have "length w \<le> length s" by (rule suffix_length_le)
  ultimately have "length (take (length s - length w) s) < length s"
    by (simp only: length_take)
  then show "(take (length s - length w) s, s) \<in> measure length" by simp
qed

definition trim :: "string \<Rightarrow> string" where
  "trim s = trimEnd (trimStart s)"

subsection \<open>Handlers\<close>

definition addSkill :: "string \<Rightarrow> 'a selection_scheme \<Rightarrow> 'a selection_scheme" where
  "addSkill sk s =
    (if sk \<notin> set (selectedSkills s)
     then s\<lparr>selectedSkills := selectedSkills s @ [sk]\<rparr>
     else s)"

definition removeSkill :: "string \<Rightarrow> 'a selection_scheme \<Rightarrow> 'a selection_scheme" where
  "removeSkill sk s = s\<lparr>selectedSkills := filter (\<lambda>x. x \<noteq> sk) (selectedSkills s)\<rparr>"

definition addCustomSkill :: "'a selection_scheme \<Rightarrow> 'a selection_scheme" where
  "addCustomSkill s =
    (if trim (customSkill s) \<noteq> [] \<and> trim (customSkill s) \<notin> set (selectedSkills s)
     then s\<lparr>selectedSkills := selectedSkills s @ [trim (customSkill s)], customSkill := []\<rparr>
     else s)"

definition addInterest :: "string \<Rightarrow> 'a selection_scheme \<Rightarrow> 'a selection_scheme" where
  "addInterest i s =
    (if i \<notin> set (selectedInterests s)
     then s\<lparr>selectedInterests := selectedInterests s @ [i]\<rparr>
     else s)"

definition removeInterest :: "string \<Rightarrow> 'a selection_scheme \<Rightarrow> 'a selection_scheme" where
  "removeInterest i s =
    s\<lparr>selectedInterests := filter (\<lambda>x. x \<noteq> i) (selectedInterests s)\<rparr>"

definition addCustomInterest :: "'a selection_scheme \<Rightarrow> 'a selection_scheme" where
  "addCustomInterest s =
    (if trim (customInterest s) \<noteq> [] \<and> trim (customInterest s) \<notin> set (selectedInterests s)
     then s\<lparr>selectedInterests := selectedInterests s @ [trim (customInterest s)],
            customInterest := []\<rparr>
     else s)"

subsection \<open>Skill suggestions grouped by category\<close>

text \<open>
  One step of the \<^verbatim>\<open>reduce\<close> that builds \<^verbatim>\<open>groupedSkills\<close>: create the category's array
  when the category is new, then push the skill onto it (after the first step the
  category is always present).
\<close>

definition group_step :: "skill list js_record \<Rightarrow> skill \<Rightarrow> skill list js_record" where
  "group_step acc sk =
    (let acc1 = (if map_of acc (category sk) = None then record_put acc (category sk) [] else acc)
     in case map_of acc1 (category sk) of
          None \<Rightarrow> acc1
        | Some arr \<Rightarrow> record_put acc1 (category sk) (arr @ [sk]))"

definition groupedSkills :: "skill list js_record" where
  "groupedSkills = foldl group_step [] skillSuggestions"

text \<open>
  \<^verbatim>\<open>getAvailableSkillSuggestions\<close>: for each category, the skills whose name is not among
  the selected skills; a category with no such skill is left out.
\<close>

definition available_step ::
  "string list \<Rightarrow> skill list js_record \<Rightarrow> string \<times> skill list \<Rightarrow> skill list js_record" where
  "available_step selected acc entry =
    (case entry of (cat, skills) \<Rightarrow>
       (let availableSkills = filter (\<lambda>sk. name sk \<notin> set selected) skills
        in if length availableSkills > 0 then record_put acc cat availableSkills else acc))"

definition getAvailableSkillSuggestions :: "'a selection_scheme \<Rightarrow> skill list js_record" where
  "getAvailableSkillSuggestions s = foldl (available_step (selectedSkills s)) [] groupedSkills"


section \<open>JSON values\<close>

text \<open>
  A parsed JSON value. A number is the value of the parsed number; an object is the
  list of its members in order, with distinct keys. A value of type \<open>json option\<close> is
  a JavaScript value that may be \<^verbatim>\<open>undefined\<close> (\<open>None\<close>).
\<close>

datatype json =
    JNull
  | JBool bool
  | JNum rat
  | JStr string
  | JArr "json list"
  | JObj "(string \<times> json) list"

text \<open>JavaScript truthiness: \<^verbatim>\<open>undefined\<close>, \<^verbatim>\<open>null\<close>, \<^verbatim>\<open>false\<close>, \<^verbatim>\<open>0\<close> and \<^verbatim>\<open>""\<close> are falsy.\<close>

fun truthy :: "json \<Rightarrow> bool" where
  "truthy JNull = False"
| "truthy (JBool b) = b"
| "truthy (JNum n) = (n \<noteq> 0)"
| "truthy (JStr s) = (s \<noteq> [])"
| "truthy (JArr xs) = True"
| "truthy (JObj ms) = True"

fun truthy_opt :: "json option \<Rightarrow> bool" where
  "truthy_opt None = False"
| "truthy_opt (Some v) = truthy v"

text \<open>
  Reading a member \<^verbatim>\<open>v.k\<close> of a value that is not null, for the member names the handlers
  use (none of them is a property of a string, an array, a number or a boolean):
  only an object can have it.
\<close>

fun get_member :: "json \<Rightarrow> string \<Rightarrow> json option" where
  "get_member (JObj ms) k = map_of ms k"
| "get_member _ k = None"

text \<open>
  \<^verbatim>\<open>v.length === 0\<close> for a truthy value: the length of an array or of a string, the
  member \<^verbatim>\<open>length\<close> of an object, and \<^verbatim>\<open>undefined\<close> for a number or a boolean.
\<close>

fun length_is_zero :: "json \<Rightarrow> bool" where
  "length_is_zero (JArr xs) = (xs = [])"
| "length_is_zero (JStr s) = (s = [])"
| "length_is_zero (JObj ms) = (map_of ms ''length'' = Some (JNum 0))"
| "length_is_zero _ = False"

text \<open>\<^verbatim>\<open>!messages || messages.length === 0\<close>.\<close>

fun no_messages :: "json option \<Rightarrow> bool" where
  "no_messages None = True"
| "no_messages (Some m) = (\<not> truthy m \<or> length_is_zero m)"

text \<open>\<^verbatim>\<open>v || d\<close> on a value that may be undefined.\<close>

fun js_or :: "json option \<Rightarrow> json \<Rightarrow> json" where
  "js_or None d = d"
| "js_or (Some v) d = (if truthy v then v else d)"

text \<open>
  The conversion of a value to a string, as a template literal \<^verbatim>\<open>`${v}`\<close> performs it,
  throws a TypeError for some values. An object is converted by its \<^verbatim>\<open>toString\<close> method,
  then by its \<^verbatim>\<open>valueOf\<close> method: an object that has a member \<^verbatim>\<open>toString\<close> of its own
  hides the inherited method with a value that cannot be called, the inherited
  \<^verbatim>\<open>valueOf\<close> returns the object itself, and the conversion throws. An array is
  converted by joining the conversions of its elements (\<^verbatim>\<open>null\<close> counts as the empty
  string), and throws when one of them does. Every other value, \<^verbatim>\<open>undefined\<close> included,
  has a string.
\<close>

fun to_string_throws :: "json \<Rightarrow> bool" where
  "to_string_throws (JArr xs) = list_ex to_string_throws xs"
| "to_string_throws (JObj ms) = (map_of ms ''toString'' \<noteq> None)"
| "to_string_throws _ = False"

fun to_string_throws_opt :: "json option \<Rightarrow> bool" where
  "to_string_throws_opt None = False"
| "to_string_throws_opt (Some v) = to_string_throws v"


section \<open>Chat save route (app/api/chat/save/route.ts)\<close>

text \<open>
  The request body is the result of \<^verbatim>\<open>await req.json()\<close>: \<open>None\<close> when the body is not
  JSON and the promise rejects. Destructuring \<^verbatim>\<open>null\<close> throws a TypeError. After the
  three checks, the first \<^verbatim>\<open>console.log\<close> builds its line with a template literal that
  converts \<^verbatim>\<open>userId\<close> and \<^verbatim>\<open>conversationId\<close> to strings, which can throw; the other
  three \<^verbatim>\<open>console.log\<close> calls pass their value on to be inspected, which converts
  nothing. All of this happens inside the \<^verbatim>\<open>try\<close> block, and every exception is answered
  by the \<^verbatim>\<open>catch\<close> block.
\<close>

definition message_body :: "string \<Rightarrow> json" where
  "message_body m = JObj [(''message'', JStr m)]"

definition chat_save_catch :: "json response" where
  "chat_save_catch = json_response_status (message_body ''Failed to save conversation'') 500"

definition chat_save_POST :: "json option \<Rightarrow> json response" where
  "chat_save_POST req_json =
    (case req_json of
       None \<Rightarrow> chat_save_catch
     | Some JNull \<Rightarrow> chat_save_catch
     | Some b \<Rightarrow>
        (let userId = get_member b ''userId'';
             conversationId = get_member b ''conversationId'';
             messages = get_member b ''messages''
         in if \<not> truthy_opt userId then
              json_response_status (message_body ''User ID is required'') 400
            else if \<not> truthy_opt conversationId then
              json_response_status (message_body ''Conversation ID is required'') 400
            else if no_messages messages then
              json_response_status (message_body ''No messages to save'') 400
            else if to_string_throws_opt userId \<or> to_string_throws_opt conversationId then
              chat_save_catch
            else
              json_response
                (JObj ((''message'', JStr ''Conversation saved successfully'')
                       # (case conversationId of None \<Rightarrow> []
                          | Some c \<Rightarrow> [(''conversationId'', c)])))))"


section \<open>Lesson save route (unnamed/part_003)\<close>

text \<open>
  The outcome of the insert into \<^verbatim>\<open>user_lessons\<close>: a result without error (with its
  \<^verbatim>\<open>data\<close>), a result whose \<^verbatim>\<open>error\<close> is truthy (with the \<^verbatim>\<open>message\<close> of the error), or
  an exception. What is thrown is \<^verbatim>\<open>null\<close> or \<^verbatim>\<open>undefined\<close>, from which the \<^verbatim>\<open>catch\<close>
  block cannot read a \<^verbatim>\<open>message\<close>, or any other value (with its \<^verbatim>\<open>message\<close>). A
  \<^verbatim>\<open>data\<close> or a \<^verbatim>\<open>message\<close> that is \<^verbatim>\<open>undefined\<close> is \<open>None\<close>, and is left out of the
  JSON body.
\<close>

datatype thrown = ThrownNullish | Thrown "json option"

datatype db_result = Inserted "json option" | DbError "json option" | DbThrows thrown

definition optional_member :: "string \<Rightarrow> json option \<Rightarrow> (string \<times> json) list" where
  "optional_member k v = (case v of None \<Rightarrow> [] | Some x \<Rightarrow> [(k, x)])"

text \<open>
  Here \<^verbatim>\<open>await req.json()\<close> and the destructuring stand before the \<^verbatim>\<open>try\<close> block: when
  they throw, the exception leaves the handler. So does the TypeError of reading
  \<^verbatim>\<open>err.message\<close> in the \<^verbatim>\<open>catch\<close> block when \<^verbatim>\<open>err\<close> is \<^verbatim>\<open>null\<close> or \<^verbatim>\<open>undefined\<close>.
\<close>

datatype handler_failure = UnhandledException

definition lesson_save_POST :: "json option \<Rightarrow> db_result \<Rightarrow> handler_failure + json response" where
  "lesson_save_POST req_json db =
    (case req_json of
       None \<Rightarrow> Inl UnhandledException
     | Some JNull \<Rightarrow> Inl UnhandledException
     | Some b \<Rightarrow>
        (let lesson_id = get_member b ''lesson_id'';
             user_id = get_member b ''user_id'';
             file_name = get_member b ''file_name''
         in if \<not> truthy_opt lesson_id \<or> \<not> truthy_opt user_id \<or> \<not> truthy_opt file_name then
              Inr (json_response_status (message_body ''Missing required fields'') 400)
            else
              (case db of
                 DbError m \<Rightarrow>
                   Inr (json_response_status
                     (JObj ((''message'', JStr ''Failed to save lesson'')
                            # optional_member ''error'' m)) 500)
               | Inserted d \<Rightarrow>
                   Inr (json_response_status
                     (JObj ((''message'', JStr ''Lesson saved successfully'')
                            # optional_member ''data'' d)) 200)
               | DbThrows ThrownNullish \<Rightarrow> Inl UnhandledException
               | DbThrows (Thrown m) \<Rightarrow>
                   Inr (json_response_status
                     (JObj ((''message'', JStr ''An unexpected error occurred'')
                            # optional_member ''error'' m)) 500))))"


section \<open>Chat upload route (app/api/chat/upload/route.ts)\<close>

text \<open>
  An entry of the form data is a file (with its name) or a text field. The form data is
  \<open>None\<close> when \<^verbatim>\<open>req.formData()\<close> rejects. The two identifiers that \<^verbatim>\<open>uuidv4()\<close> would
  return are inputs of the model.
\<close>

datatype form_entry = FormFile string | FormText string

text \<open>
  \<^verbatim>\<open>formData.get("file")\<close> is the first entry named \<^verbatim>\<open>file\<close>, or null. A file object is
  truthy; a text field is truthy when it is not empty, and has no \<^verbatim>\<open>name\<close>, which the
  template string prints as \<^verbatim>\<open>undefined\<close>.
\<close>

fun entry_truthy :: "form_entry option \<Rightarrow> bool" where
  "entry_truthy None = False"
| "entry_truthy (Some (FormFile n)) = True"
| "entry_truthy (Some (FormText t)) = (t \<noteq> [])"

fun entry_name :: "form_entry option \<Rightarrow> string" where
  "entry_name (Some (FormFile n)) = n"
| "entry_name _ = ''undefined''"

definition chat_upload_POST ::
  "(string \<times> form_entry) list option \<Rightarrow> searchParams \<Rightarrow> string \<Rightarrow> string \<Rightarrow> json response" where
  "chat_upload_POST req_formData params uuid1 uuid2 =
    (case req_formData of
       None \<Rightarrow> json_response_status (JObj [(''error'', JStr ''Failed to upload file'')]) 500
     | Some formData \<Rightarrow>
        (let file = map_of formData ''file''
         in if \<not> entry_truthy file then
              json_response_status (JObj [(''error'', JStr ''No file uploaded'')]) 400
            else
              (let fileId = uuid1;
                   fileUrl = ''/uploaded-files/'' @ fileId @ ''-'' @ entry_name file;
                   conversationId = or_default (searchParams_get params ''conversation_id'') uuid2
               in json_response
                    (JObj [(''message'', JStr ''File uploaded successfully''),
                           (''fileId'', JStr fileId),
                           (''url'', JStr fileUrl),
                           (''conversation_id'', JStr conversationId)]))))"


section \<open>Upstream requests\<close>

text \<open>
  The outcome of \<^verbatim>\<open>await fetch(url)\<close> followed, on a response, by \<^verbatim>\<open>await response.json()\<close>:
  the fetch rejects (the backend cannot be reached), or there is a response with its
  \<^verbatim>\<open>ok\<close> flag and its parsed body (\<open>None\<close> when the body is not JSON and \<^verbatim>\<open>json()\<close>
  rejects).
\<close>

datatype 'a fetch_result = FetchRejects | Response bool "'a option"


section \<open>Skills route (unnamed/part_008)\<close>

text \<open>
  The handler declares \<^verbatim>\<open>skillsData\<close> and \<^verbatim>\<open>frameworksData\<close> as \<^verbatim>\<open>string[]\<close>, but assigns
  them what \<^verbatim>\<open>json()\<close> returns without a check: any JSON value can arrive.
\<close>

definition fallbackSkills :: "json list" where
  "fallbackSkills =
    map JStr
      [ ''JavaScript'', ''Python'', ''React'', ''Node.js'', ''TypeScript'', ''HTML'', ''CSS'',
        ''Java'', ''C++'', ''SQL'', ''MongoDB'', ''PostgreSQL'', ''AWS'', ''Docker'',
        ''Kubernetes'', ''Git'', ''Linux'', ''Machine Learning'', ''Data Analysis'',
        ''UI/UX Design'', ''Project Management'', ''Agile'', ''Scrum'', ''DevOps'' ]"

text \<open>
  \<^verbatim>\<open>Array.isArray(data) ? data : data.skills || []\<close>, the value assigned to \<^verbatim>\<open>skillsData\<close>;
  \<open>None\<close> is the TypeError of reading \<^verbatim>\<open>skills\<close> from \<^verbatim>\<open>null\<close>.
\<close>

fun skills_of_data :: "json \<Rightarrow> json option" where
  "skills_of_data (JArr xs) = Some (JArr xs)"
| "skills_of_data JNull = None"
| "skills_of_data d = Some (js_or (get_member d ''skills'') (JArr []))"

text \<open>
  The two reads of the \<^verbatim>\<open>try\<close> block; \<open>None\<close> is an exception (the fetch or \<^verbatim>\<open>json()\<close>
  rejects, or \<^verbatim>\<open>data.skills\<close> is read from \<^verbatim>\<open>null\<close>). A response that is not ok leaves
  the initial empty array.
\<close>

fun read_skills :: "json fetch_result \<Rightarrow> json option" where
  "read_skills FetchRejects = None"
| "read_skills (Response ok b) =
     (if ok then (case b of None \<Rightarrow> None | Some d \<Rightarrow> skills_of_data d)
      else Some (JArr []))"

text \<open>\<^verbatim>\<open>Array.isArray(data) ? data : []\<close>.\<close>

fun frameworks_of_data :: "json \<Rightarrow> json list" where
  "frameworks_of_data (JArr xs) = xs"
| "frameworks_of_data d = []"

fun read_frameworks :: "json fetch_result \<Rightarrow> json list option" where
  "read_frameworks FetchRejects = None"
| "read_frameworks (Response ok b) =
     (if ok then (case b of None \<Rightarrow> None | Some d \<Rightarrow> Some (frameworks_of_data d))
      else Some [])"

text \<open>
  The characters that iterating a string yields, one string for each code point: a byte
  that starts a code point, with the continuation bytes (\<open>0x80\<close> to \<open>0xBF\<close>) after it.
\<close>

definition is_continuation :: "char \<Rightarrow> bool" where
  "is_continuation c \<longleftrightarrow> 128 \<le> (of_char c :: nat) \<and> (of_char c :: nat) < 192"

function codePoints :: "string \<Rightarrow> string list" where
  "codePoints [] = []"
| "codePoints (c # cs) =
     (c # takeWhile is_continuation cs) # codePoints (dropWhile is_continuation cs)"
  by pat_completeness auto
termination
  by (relation "measure length") (simp_all add: length_dropWhile_le less_Suc_eq_le)

text \<open>
  The spread \<^verbatim>\<open>[...v]\<close>: the elements of an array, the characters of a string;
  \<open>None\<close> is the TypeError for a value that cannot be iterated (a number, a boolean, an
  object).
\<close>

fun spread_iterable :: "json \<Rightarrow> json list option" where
  "spread_iterable (JArr xs) = Some xs"
| "spread_iterable (JStr s) = Some (map JStr (codePoints s))"
| "spread_iterable v = None"

text \<open>
  \<^verbatim>\<open>Array.from(new Set(xs))\<close>. A set keeps its elements in insertion order and holds a
  value once: strings, numbers, booleans and \<^verbatim>\<open>null\<close> are the same value when they are
  equal; an array or an object is the same value only as itself, and every array and
  object of a parsed body is an object of its own.
\<close>

fun is_primitive :: "json \<Rightarrow> bool" where
  "is_primitive (JArr xs) = False"
| "is_primitive (JObj ms) = False"
| "is_primitive v = True"

definition set_add :: "json list \<Rightarrow> json \<Rightarrow> json list" where
  "set_add acc x = (if is_primitive x \<and> x \<in> set acc then acc else acc @ [x])"

definition array_from_set :: "json list \<Rightarrow> json list" where
  "array_from_set xs = foldl set_add [] xs"

text \<open>
  The \<^verbatim>\<open>try\<close> block up to the array \<^verbatim>\<open>[...skillsData, ...frameworksData]\<close>; \<open>None\<close> when it
  throws.
\<close>

definition read_and_spread :: "json fetch_result \<Rightarrow> json fetch_result \<Rightarrow> json list option" where
  "read_and_spread responseSkills responseFrameworks =
    (case read_skills responseSkills of
       None \<Rightarrow> None
     | Some skillsData \<Rightarrow>
        (case read_frameworks responseFrameworks of
           None \<Rightarrow> None
         | Some frameworksData \<Rightarrow>
            (case spread_iterable skillsData of
               None \<Rightarrow> None
             | Some xs \<Rightarrow> Some (xs @ frameworksData))))"

record skills_body =
  skills :: "json list"

definition skills_GET :: "json fetch_result \<Rightarrow> json fetch_result \<Rightarrow> skills_body response" where
  "skills_GET responseSkills responseFrameworks =
    (case read_and_spread responseSkills responseFrameworks of
       None \<Rightarrow> json_response_status \<lparr>skills = fallbackSkills\<rparr> 500
     | Some spreadArray \<Rightarrow>
        (let combinedSkills = array_from_set spreadArray
         in json_response
              \<lparr>skills = (if length combinedSkills > 0 then combinedSkills
                          else fallbackSkills)\<rparr>))"


section \<open>Interests route (frontend/app/api/interests/route.ts)\<close>

definition fallbackInterests :: json where
  "fallbackInterests =
    JArr (map JStr
      [ ''Technology'', ''Design'', ''Data Science'', ''Business'', ''AI/ML'',
        ''Cloud Computing'', ''Cybersecurity'', ''Marketing'', ''Finance'', ''Healthcare'' ])"

definition interests_catch :: "json response" where
  "interests_catch = json_response_status (JObj [(''interests'', fallbackInterests)]) 500"

fun interests_GET :: "json fetch_result \<Rightarrow> json response" where
  "interests_GET FetchRejects = interests_catch"
| "interests_GET (Response ok b) =
     (if \<not> ok then
        json_response
          (JObj [(''interests'', fallbackInterests), (''source'', JStr ''fallback'')])
      else
        (case b of
           None \<Rightarrow> interests_catch
         | Some JNull \<Rightarrow> interests_catch
         | Some data \<Rightarrow>
             json_response
               (JObj [(''interests'', js_or (get_member data ''interests'') (JArr []))])))"


section \<open>Dashboard page (frontend/app/dashboard/page.tsx)\<close>

record DashboardData =
  progress :: "json js_record"
  recent_activity :: json
  achievements :: json
  saved_content :: json
  chat_history :: json
  recommendations :: "json js_record"
  analytics :: json
  user_role :: json

definition generateMockData :: DashboardData where
  "generateMockData =
    \<lparr> progress = [ (''lessons_completed'', JNum 24), (''total_lessons'', JNum 100),
          (''completion_percentage'', JNum 24), (''hours_spent'', JNum 67.5),
          (''current_streak'', JNum 12), (''skills_learned'', JNum 15),
          (''career_advancement_percentage'', JNum 35), (''current_level'', JNum 3),
          (''next_milestone'', JStr ''Intermediate Developer'') ],
      recent_activity =
        JArr
          [ JObj
            [ (''type'', JStr ''lesson''), (''title'', JStr ''Advanced React Patterns''),
              (''date'', JStr ''2024-01-15''), (''progress'', JNum 100),
              (''status'', JStr ''completed'') ],
            JObj
            [ (''type'', JStr ''quiz''), (''title'', JStr ''JavaScript ES6 Assessment''),
              (''date'', JStr ''2024-01-14''), (''progress'', JNum 92),
              (''status'', JStr ''completed'') ],
            JObj
            [ (''type'', JStr ''chat''), (''title'', JStr ''AI Discussion on State Management''),
              (''date'', JStr ''2024-01-13''), (''status'', JStr ''active'') ],
            JObj
            [ (''type'', JStr ''lesson''), (''title'', JStr ''Node.js Authentication''),
              (''date'', JStr ''2024-01-12''), (''progress'', JNum 75),
              (''status'', JStr ''in_progress'') ],
            JObj
            [ (''type'', JStr ''project''), (''title'', JStr ''Full Stack E-commerce App''),
              (''date'', JStr ''2024-01-11''), (''progress'', JNum 45),
              (''status'', JStr ''in_progress'') ],
            JObj
            [ (''type'', JStr ''certificate''),
              (''title'', JStr ''React Fundamentals Certificate''),
              (''date'', JStr ''2024-01-10''), (''status'', JStr ''earned'') ] ],
      achievements =
        JArr
          [ JObj
            [ (''title'', JStr ''First Steps''),
              (''description'', JStr ''Completed your first lesson''),
              (''earned_date'', JStr ''2024-01-01''), (''badge_type'', JStr ''bronze''),
              (''icon'', JStr [CHR 0xF0, CHR 0x9F, CHR 0x8E, CHR 0xAF]) ],
            JObj
            [ (''title'', JStr ''Streak Master''),
              (''description'', JStr ''12 days of continuous learning''),
              (''earned_date'', JStr ''2024-01-15''), (''badge_type'', JStr ''gold''),
              (''icon'', JStr [CHR 0xF0, CHR 0x9F, CHR 0x94, CHR 0xA5]) ],
            JObj
            [ (''title'', JStr ''Quiz Champion''),
              (''description'', JStr ''Scored 90%+ on 10 quizzes''),
              (''earned_date'', JStr ''2024-01-12''), (''badge_type'', JStr ''silver''),
              (''icon'', JStr [CHR 0xF0, CHR 0x9F, CHR 0x8F, CHR 0x86]) ],
            JObj
            [ (''title'', JStr ''Skill Builder''),
              (''description'', JStr ''Mastered 5 different skills''),
              (''earned_date'', JStr ''2024-01-08''), (''badge_type'', JStr ''gold''),
              (''icon'', JStr [CHR 0xE2, CHR 0xAD, CHR 0x90]) ],
            JObj
            [ (''title'', JStr ''Project Pioneer''),
              (''description'', JStr ''Completed first project''),
              (''earned_date'', JStr ''2024-01-05''), (''badge_type'', JStr ''bronze''),
              (''icon'', JStr [CHR 0xF0, CHR 0x9F, CHR 0x9A, CHR 0x80]) ] ],
      saved_content =
        JArr
          [ JObj
            [ (''id'', JStr ''1''), (''title'', JStr ''React Best Practices Guide''),
              (''type'', JStr ''lesson''), (''date_saved'', JStr ''2024-01-14'') ],
            JObj
            [ (''id'', JStr ''2''), (''title'', JStr ''Full Stack Developer Roadmap''),
              (''type'', JStr ''roadmap''), (''date_saved'', JStr ''2024-01-13'') ],
            JObj
            [ (''id'', JStr ''3''), (''title'', JStr ''JavaScript Interview Questions''),
              (''type'', JStr ''resource''), (''date_saved'', JStr ''2024-01-12'') ],
            JObj
            [ (''id'', JStr ''4''), (''title'', JStr ''API Design Patterns''),
              (''type'', JStr ''lesson''), (''date_saved'', JStr ''2024-01-11'') ] ],
      chat_history =
        JArr
          [ JObj
            [ (''id'', JStr ''1''),
              (''summary'', JStr ''Discussion about React hooks and state management''),
              (''date'', JStr ''2024-01-15''), (''topic'', JStr ''React'') ],
            JObj
            [ (''id'', JStr ''2''),
              (''summary'', JStr ''Career advice for transitioning to full-stack development''),
              (''date'', JStr ''2024-01-13''), (''topic'', JStr ''Career'') ],
            JObj
            [ (''id'', JStr ''3''),
              (''summary'', JStr ''Help with debugging Node.js authentication issues''),
              (''date'', JStr ''2024-01-11''), (''topic'', JStr ''Node.js'') ],
            JObj
            [ (''id'', JStr ''4''), (''summary'', JStr ''Best practices for database design''),
              (''date'', JStr ''2024-01-09''), (''topic'', JStr ''Database'') ] ],
      recommendations = [ (''next_lessons'', JArr
            [ JObj
              [ (''id'', JStr ''1''), (''title'', JStr ''Advanced TypeScript Patterns''),
                (''description'', JStr ''Learn advanced TypeScript features for better code quality''),
                (''estimated_time'', JStr ''2.5 hours''),
                (''difficulty'', JStr ''intermediate''), (''priority'', JNum 1) ],
              JObj
              [ (''id'', JStr ''2''),
                (''title'', JStr ''Testing with Jest and React Testing Library''),
                (''description'', JStr ''Master testing strategies for React applications''),
                (''estimated_time'', JStr ''3 hours''), (''difficulty'', JStr ''intermediate''),
                (''priority'', JNum 2) ],
              JObj
              [ (''id'', JStr ''3''), (''title'', JStr ''GraphQL Fundamentals''),
                (''description'', JStr ''Learn modern API development with GraphQL''),
                (''estimated_time'', JStr ''4 hours''), (''difficulty'', JStr ''advanced''),
                (''priority'', JNum 3) ] ]),
          (''career_opportunities'', JArr
            [ JObj
              [ (''title'', JStr ''Senior Frontend Developer''),
                (''company'', JStr ''TechCorp Inc''), (''match_score'', JNum 89),
                (''salary_range'', JStr ''$85k - $120k''), (''location'', JStr ''Remote''),
                (''skills_required'', JArr [JStr ''React'', JStr ''TypeScript'', JStr ''Node.js'']) ],
              JObj
              [ (''title'', JStr ''Full Stack Engineer''), (''company'', JStr ''StartupXYZ''),
                (''match_score'', JNum 82), (''salary_range'', JStr ''$90k - $130k''),
                (''location'', JStr ''San Francisco, CA''),
                (''skills_required'', JArr [JStr ''React'', JStr ''Node.js'', JStr ''PostgreSQL'', JStr ''AWS'']) ],
              JObj
              [ (''title'', JStr ''React Developer''), (''company'', JStr ''WebAgency Pro''),
                (''match_score'', JNum 95), (''salary_range'', JStr ''$70k - $95k''),
                (''location'', JStr ''New York, NY''),
                (''skills_required'', JArr [JStr ''React'', JStr ''JavaScript'', JStr ''CSS'']) ] ]),
          (''skill_gaps'', JArr
            [ JObj
              [ (''skill'', JStr ''TypeScript''), (''current_level'', JNum 2),
                (''target_level'', JNum 4), (''priority'', JStr ''high''),
                (''market_demand'', JStr ''Very High'') ],
              JObj
              [ (''skill'', JStr ''Testing''), (''current_level'', JNum 1),
                (''target_level'', JNum 3), (''priority'', JStr ''medium''),
                (''market_demand'', JStr ''High'') ],
              JObj
              [ (''skill'', JStr ''DevOps''), (''current_level'', JNum 0),
                (''target_level'', JNum 2), (''priority'', JStr ''low''),
                (''market_demand'', JStr ''Medium'') ],
              JObj
              [ (''skill'', JStr ''System Design''), (''current_level'', JNum 1),
                (''target_level'', JNum 4), (''priority'', JStr ''high''),
                (''market_demand'', JStr ''Very High'') ] ]),
          (''market_trends'', JArr
            [ JObj
              [ (''trend'', JStr ''AI Integration in Web Development''),
                (''description'', JStr ''Growing demand for developers who can integrate AI/ML features''),
                (''growth_rate'', JStr ''+45%''), (''relevance_score'', JNum 92) ],
              JObj
              [ (''trend'', JStr ''Serverless Architecture''),
                (''description'', JStr ''Increasing adoption of serverless technologies''),
                (''growth_rate'', JStr ''+38%''), (''relevance_score'', JNum 85) ],
              JObj
              [ (''trend'', JStr ''Web3 and Blockchain''),
                (''description'', JStr ''Emerging opportunities in decentralized applications''),
                (''growth_rate'', JStr ''+67%''), (''relevance_score'', JNum 78) ] ]),
          (''general_recommendations'', JArr
            [ JObj
              [ (''id'', JStr ''g1''), (''title'', JStr ''Explore new AI frameworks''),
                (''description'', JStr ''Stay updated with the latest in AI development.''),
                (''link'', JStr ''#'') ],
              JObj
              [ (''id'', JStr ''g2''), (''title'', JStr ''Contribute to open source''),
                (''description'', JStr ''Enhance your portfolio and collaborate with others.''),
                (''link'', JStr ''#'') ] ]) ],
      analytics =
        JObj
          [ (''learning_timeline'', JArr
              [ JObj
                [ (''date'', JStr ''2024-01-08''), (''lessons'', JNum 2), (''hours'', JNum 3.5),
                  (''skills_gained'', JNum 1) ],
                JObj
                [ (''date'', JStr ''2024-01-09''), (''lessons'', JNum 3), (''hours'', JNum 5.0),
                  (''skills_gained'', JNum 2) ],
                JObj
                [ (''date'', JStr ''2024-01-10''), (''lessons'', JNum 1), (''hours'', JNum 2.5),
                  (''skills_gained'', JNum 0) ] ]),
            (''skill_levels'', JArr
              [ JObj
                [ (''skill'', JStr ''JavaScript''), (''level'', JNum 4), (''max_level'', JNum 5),
                  (''progress_percentage'', JNum 80) ],
                JObj
                [ (''skill'', JStr ''React''), (''level'', JNum 4), (''max_level'', JNum 5),
                  (''progress_percentage'', JNum 75) ] ]),
            (''time_distribution'', JArr
              [ JObj
                [ (''activity'', JStr ''Lessons''), (''hours'', JNum 35),
                  (''percentage'', JNum 52), (''color'', JStr ''#3B82F6'') ],
                JObj
                [ (''activity'', JStr ''Projects''), (''hours'', JNum 18),
                  (''percentage'', JNum 27), (''color'', JStr ''#10B981'') ] ]),
            (''career_progress'', JArr
              [ JObj
                [ (''milestone'', JStr ''Learn React Basics''), (''completed'', JBool True),
                  (''date'', JStr ''2024-01-01''), (''progress_percentage'', JNum 100) ],
                JObj
                [ (''milestone'', JStr ''Build First Project''), (''completed'', JBool True),
                  (''date'', JStr ''2024-01-05''), (''progress_percentage'', JNum 100) ] ]) ],
      user_role =
        JStr ''student'' \<rparr>"

text \<open>
  \<^verbatim>\<open>getUserProgress\<close> and \<^verbatim>\<open>getRecommendations\<close> catch every failure of their request
  (the fetch rejects, the response is not ok, the body is not JSON) and return
  \<^verbatim>\<open>null\<close>. A reply that is read is taken to be an object: its members \<^verbatim>\<open>progress\<close>
  (an object, when present), \<^verbatim>\<open>recent_activity\<close> and \<^verbatim>\<open>achievements\<close> for the progress
  request, all its members for the recommendations request.
\<close>

record progress_reply =
  pr_progress :: "json js_record option"
  pr_recent_activity :: "json option"
  pr_achievements :: "json option"

fun fetch_or_null :: "'a fetch_result \<Rightarrow> 'a option" where
  "fetch_or_null FetchRejects = None"
| "fetch_or_null (Response ok b) = (if \<not> ok then None else b)"

definition getUserProgress :: "progress_reply fetch_result \<Rightarrow> progress_reply option" where
  "getUserProgress r = fetch_or_null r"

definition getRecommendations :: "json js_record fetch_result \<Rightarrow> json js_record option" where
  "getRecommendations r = fetch_or_null r"

text \<open>
  The object spread \<^verbatim>\<open>{ ...a, ...b }\<close>, and \<^verbatim>\<open>{ ...a, ...b }\<close> with \<^verbatim>\<open>b\<close> undefined: the
  members of \<^verbatim>\<open>b\<close> are assigned, one after the other, to a copy of \<^verbatim>\<open>a\<close>.
\<close>

definition spread :: "'v js_record \<Rightarrow> 'v js_record \<Rightarrow> 'v js_record" where
  "spread a b = foldl (\<lambda>acc (k, v). record_put acc k v) a b"

fun spread_opt :: "'v js_record \<Rightarrow> 'v js_record option \<Rightarrow> 'v js_record" where
  "spread_opt a None = a"
| "spread_opt a (Some b) = spread a b"

record toast =
  toast_title :: string
  toast_description :: string

record dashboard_state =
  dashboardData :: "DashboardData option"
  loading :: bool
  error :: "string option"
  isRefreshing :: bool
  toasts :: "toast list"

record backend =
  progress_request :: "progress_reply fetch_result"
  recommendations_request :: "json js_record fetch_result"

definition initial_state :: dashboard_state where
  "initial_state =
    \<lparr>dashboardData = None, loading = True, error = None, isRefreshing = False, toasts = []\<rparr>"

definition merge_progress :: "DashboardData \<Rightarrow> progress_reply option \<Rightarrow> DashboardData" where
  "merge_progress combinedData progressRes =
    (case progressRes of
       None \<Rightarrow> combinedData
     | Some v \<Rightarrow>
         combinedData
           \<lparr>progress := spread_opt (progress combinedData) (pr_progress v),
            recent_activity := js_or (pr_recent_activity v) (recent_activity combinedData),
            achievements := js_or (pr_achievements v) (achievements combinedData)\<rparr>)"

definition merge_recommendations ::
  "DashboardData \<Rightarrow> json js_record option \<Rightarrow> DashboardData" where
  "merge_recommendations combinedData recommendationsRes =
    (case recommendationsRes of
       None \<Rightarrow> combinedData
     | Some v \<Rightarrow> combinedData\<lparr>recommendations := spread (recommendations combinedData) v\<rparr>)"

text \<open>
  \<^verbatim>\<open>fetchDashboardData(showRefreshToast)\<close>, with \<^verbatim>\<open>session?.user?.id\<close> (\<open>None\<close> when
  there is no session) and the outcomes of the two requests. Nothing in the \<^verbatim>\<open>try\<close> block
  can throw, since both helpers catch their own failures: the \<^verbatim>\<open>catch\<close> block, with its
  toast "Using Demo Data", is never entered.
\<close>

definition fetchDashboardData ::
  "string option \<Rightarrow> backend \<Rightarrow> bool \<Rightarrow> dashboard_state \<Rightarrow> dashboard_state" where
  "fetchDashboardData user_id be showRefreshToast s =
    (if \<not> string_truthy user_id then
       s\<lparr>dashboardData := Some generateMockData, loading := False\<rparr>
     else
       (let s1 = (if showRefreshToast then s\<lparr>isRefreshing := True\<rparr> else s\<lparr>loading := True\<rparr>);
            s2 = s1\<lparr>error := None\<rparr>;
            progressRes = getUserProgress (progress_request be);
            recommendationsRes = getRecommendations (recommendations_request be);
            mockData = generateMockData;
            combinedData = merge_recommendations (merge_progress mockData progressRes)
                             recommendationsRes;
            s3 = s2\<lparr>dashboardData := Some combinedData\<rparr>;
            s4 = (if showRefreshToast then
                    s3\<lparr>toasts := toasts s3 @
                      [\<lparr>toast_title = ''Dashboard Updated'',
                        toast_description =
                          ''Your dashboard data has been refreshed successfully.''\<rparr>]\<rparr>
                  else s3)
        in s4\<lparr>loading := False, isRefreshing := False\<rparr>))"


section \<open>Properties of the two mock routes\<close>

lemma match_GET_careers: "careers (body (match_GET params)) = mockCareers"
  by (simp add: match_GET_def json_response_def)

lemma mockCareers_scores: "map matchScore mockCareers = [95, 88, 82, 78, 75]"
  by (simp add: mockCareers_def)

lemma mockCareers_sorted:
  "sorted_wrt (\<lambda>a b. matchScore b \<le> matchScore a) mockCareers"
  by (simp add: mockCareers_def)

text \<open>
  C1. For every request, the careers returned by the match route are in order of
  non-increasing match score, and for each score the careers carrying it appear in the
  same relative order as in the taxonomy table \<open>mockCareers\<close>.
\<close>

theorem C1_match_sorted_stable:
  "sorted_wrt (\<lambda>a b. matchScore b \<le> matchScore a) (careers (body (match_GET params)))
   \<and> (\<forall>k. filter (\<lambda>c. matchScore c = k) (careers (body (match_GET params)))
          = filter (\<lambda>c. matchScore c = k) mockCareers)"
  by (simp add: match_GET_careers mockCareers_sorted)

text \<open>
  C9. The response of the match route does not depend on the request: any two
  requests, whatever their \<^verbatim>\<open>answers\<close> parameter, receive the same response (same careers
  with the same titles, scores and salary ranges, in the same order).
\<close>

theorem C9_match_independent_of_answers:
  "match_GET params1 = match_GET params2"
  by (simp add: match_GET_def)

lemma roadmap_GET_milestones: "milestones (body (roadmap_GET params)) = mockMilestones"
  by (simp add: roadmap_GET_def json_response_def)

lemma roadmap_GET_status: "status (roadmap_GET params) = 200"
  by (simp add: roadmap_GET_def json_response_def)

lemma roadmap_GET_role:
  "role (body (roadmap_GET params))
     = or_default (searchParams_get params ''role'') ''Software Engineer''"
  by (simp add: roadmap_GET_def json_response_def)

text \<open>
  C2. For every request, the roadmap returned by the roadmap route has exactly three
  tiers, and their levels are Foundational, Intermediate, Advanced in this order.
\<close>

theorem C2_roadmap_three_tiers:
  "map level (milestones (body (roadmap_GET params)))
     = [''Foundational'', ''Intermediate'', ''Advanced'']"
  by (simp add: roadmap_GET_milestones mockMilestones_def)

text \<open>
  C3 (as stated, refuted). A request for a role that is not a title of the career
  table is not rejected: the route answers 200, echoes the role, and attaches the same
  milestones as it does for Software Engineer.
\<close>

theorem C3_unknown_role_counterexample:
  "''Underwater Basket Weaver'' \<notin> set (map c_title mockCareers)
   \<and> status (roadmap_GET [(''role'', ''Underwater Basket Weaver'')]) = 200
   \<and> role (body (roadmap_GET [(''role'', ''Underwater Basket Weaver'')]))
        = ''Underwater Basket Weaver''
   \<and> milestones (body (roadmap_GET [(''role'', ''Underwater Basket Weaver'')]))
        = milestones (body (roadmap_GET [(''role'', ''Software Engineer'')]))"
  by (simp add: roadmap_GET_def json_response_def searchParams_get_def mockCareers_def)

text \<open>
  C3 (amended). The roadmap route has no failure path: every request is answered with
  status 200 and the fixed mock milestones, and the role of the answer is the role
  parameter when it is present and not empty, and Software Engineer otherwise.
\<close>

theorem C3_roadmap_never_fails:
  "status (roadmap_GET params) = 200
   \<and> milestones (body (roadmap_GET params)) = mockMilestones
   \<and> role (body (roadmap_GET params))
        = (case searchParams_get params ''role'' of
             None \<Rightarrow> ''Software Engineer''
           | Some r \<Rightarrow> if r = [] then ''Software Engineer'' else r)"
  by (simp add: roadmap_GET_status roadmap_GET_milestones roadmap_GET_role
      split: option.split)


section \<open>Properties of the career page\<close>

subsection \<open>Selections without duplicates\<close>

definition no_duplicates :: "'a selection_scheme \<Rightarrow> bool" where
  "no_duplicates s \<longleftrightarrow> distinct (selectedSkills s) \<and> distinct (selectedInterests s)"

lemma no_duplicates_addSkill: "no_duplicates s \<Longrightarrow> no_duplicates (addSkill sk s)"
  by (simp add: no_duplicates_def addSkill_def)

lemma no_duplicates_removeSkill: "no_duplicates s \<Longrightarrow> no_duplicates (removeSkill sk s)"
  by (simp add: no_duplicates_def removeSkill_def)

lemma no_duplicates_addCustomSkill: "no_duplicates s \<Longrightarrow> no_duplicates (addCustomSkill s)"
  by (simp add: no_duplicates_def addCustomSkill_def)

lemma no_duplicates_addInterest: "no_duplicates s \<Longrightarrow> no_duplicates (addInterest i s)"
  by (simp add: no_duplicates_def addInterest_def)

lemma no_duplicates_removeInterest: "no_duplicates s \<Longrightarrow> no_duplicates (removeInterest i s)"
  by (simp add: no_duplicates_def removeInterest_def)

lemma no_duplicates_addCustomInterest:
  "no_duplicates s \<Longrightarrow> no_duplicates (addCustomInterest s)"
  by (simp add: no_duplicates_def addCustomInterest_def)

text \<open>
  C7. From a state whose selected skills and selected interests have no duplicates,
  each of \<^verbatim>\<open>addSkill\<close>, \<^verbatim>\<open>addCustomSkill\<close>, \<^verbatim>\<open>removeSkill\<close>, \<^verbatim>\<open>addInterest\<close>,
  \<^verbatim>\<open>addCustomInterest\<close> and \<^verbatim>\<open>removeInterest\<close> leads to a state whose selections have no
  duplicates. The handlers are those of both pages.
\<close>

theorem C7_no_duplicates_preserved:
  "no_duplicates s \<Longrightarrow>
     no_duplicates (addSkill x s) \<and> no_duplicates (addCustomSkill s)
     \<and> no_duplicates (removeSkill x s)
     \<and> no_duplicates (addInterest x s) \<and> no_duplicates (addCustomInterest s)
     \<and> no_duplicates (removeInterest x s)"
  by (simp add: no_duplicates_addSkill no_duplicates_removeSkill no_duplicates_addCustomSkill
      no_duplicates_addInterest no_duplicates_removeInterest no_duplicates_addCustomInterest)

text \<open>
  A state with React and SEO selected and the text "  Rust " typed into the custom skill
  field: adding React again changes nothing, the custom skill is added trimmed.
\<close>

definition demo_selection :: selection where
  "demo_selection =
    \<lparr>selectedSkills = [''React'', ''SEO''], selectedInterests = [''Design''],
     customSkill = ''  Rust '', customInterest = ''Design''\<rparr>"

lemma trim_demo: "trim ''  Rust '' = ''Rust''"
  by code_simp

lemma demo_selection_steps:
  "selectedSkills (addSkill ''React'' demo_selection) = [''React'', ''SEO'']
   \<and> selectedSkills (addCustomSkill demo_selection) = [''React'', ''SEO'', ''Rust'']
   \<and> selectedSkills (removeSkill ''React'' demo_selection) = [''SEO'']"
  by (simp add: addSkill_def addCustomSkill_def removeSkill_def demo_selection_def trim_demo)

theorem C7_no_duplicates_preserved_witness:
  "no_duplicates demo_selection
   \<and> no_duplicates (addSkill ''React'' demo_selection)
   \<and> no_duplicates (addCustomSkill demo_selection)
   \<and> no_duplicates (removeSkill ''React'' demo_selection)
   \<and> no_duplicates (addInterest ''React'' demo_selection)
   \<and> no_duplicates (addCustomInterest demo_selection)
   \<and> no_duplicates (removeInterest ''React'' demo_selection)"
proof -
  have h: "no_duplicates demo_selection"
    by (simp add: no_duplicates_def demo_selection_def)
  show ?thesis
    using h C7_no_duplicates_preserved [OF h, of "''React''"] by simp
qed

text \<open>
  The same invariant along any sequence of user events, starting from the empty
  selections the pages start with. Typing into a custom field only changes the field.
\<close>

datatype event =
    AddSkill string | RemoveSkill string | SetCustomSkill string | AddCustomSkill
  | AddInterest string | RemoveInterest string | SetCustomInterest string | AddCustomInterest

fun handle :: "'a selection_scheme \<Rightarrow> event \<Rightarrow> 'a selection_scheme" where
  "handle s (AddSkill x) = addSkill x s"
| "handle s (RemoveSkill x) = removeSkill x s"
| "handle s (SetCustomSkill t) = s\<lparr>customSkill := t\<rparr>"
| "handle s AddCustomSkill = addCustomSkill s"
| "handle s (AddInterest x) = addInterest x s"
| "handle s (RemoveInterest x) = removeInterest x s"
| "handle s (SetCustomInterest t) = s\<lparr>customInterest := t\<rparr>"
| "handle s AddCustomInterest = addCustomInterest s"

lemma no_duplicates_handle: "no_duplicates s \<Longrightarrow> no_duplicates (handle s e)"
  by (cases e)
     (simp_all add: no_duplicates_addSkill no_duplicates_removeSkill
        no_duplicates_addCustomSkill no_duplicates_addInterest no_duplicates_removeInterest
        no_duplicates_addCustomInterest, simp_all add: no_duplicates_def)

lemma no_duplicates_run: "no_duplicates s \<Longrightarrow> no_duplicates (foldl handle s es)"
  by (induction es arbitrary: s) (simp_all add: no_duplicates_handle)

lemma no_duplicates_from_start:
  "selectedSkills s = [] \<Longrightarrow> selectedInterests s = []
     \<Longrightarrow> no_duplicates (foldl handle s es)"
  by (rule no_duplicates_run) (simp add: no_duplicates_def)

subsection \<open>Skill suggestions\<close>

definition all_available :: "string list \<Rightarrow> skill list js_record \<Rightarrow> bool" where
  "all_available selected r \<longleftrightarrow>
     (\<forall>(cat, skills) \<in> set r. \<forall>sk \<in> set skills. name sk \<notin> set selected)"

lemma all_available_record_put:
  "all_available selected r \<Longrightarrow> \<forall>sk \<in> set v. name sk \<notin> set selected
     \<Longrightarrow> all_available selected (record_put r k v)"
  by (induction r k v rule: record_put.induct) (auto simp: all_available_def)

lemma all_available_step:
  "all_available selected acc \<Longrightarrow> all_available selected (available_step selected acc entry)"
  by (cases entry) (simp add: available_step_def Let_def all_available_record_put)

lemma all_available_foldl:
  "all_available selected acc \<Longrightarrow>
     all_available selected (foldl (available_step selected) acc es)"
  by (induction es arbitrary: acc) (simp_all add: all_available_step)

text \<open>
  C4. Whatever the selected skills are, no group returned by
  \<^verbatim>\<open>getAvailableSkillSuggestions\<close> contains a skill whose name is among the selected
  skills.
\<close>

theorem C4_suggestions_exclude_selected:
  "\<forall>(cat, skills) \<in> set (getAvailableSkillSuggestions s).
      \<forall>sk \<in> set skills. name sk \<notin> set (selectedSkills s)"
proof -
  have "all_available (selectedSkills s) []"
    by (simp add: all_available_def)
  then have "all_available (selectedSkills s) (getAvailableSkillSuggestions s)"
    unfolding getAvailableSkillSuggestions_def by (rule all_available_foldl)
  then show ?thesis
    by (simp add: all_available_def)
qed

lemma groupedSkills_categories:
  "map fst groupedSkills
     = [''Technology'', ''Design'', ''Analytics'', ''Management'', ''Marketing'']"
  by code_simp

lemma demo_suggestions:
  "map (\<lambda>(cat, skills). (cat, map name skills)) (getAvailableSkillSuggestions demo_selection)
     = [ (''Technology'', [''JavaScript'', ''Python'', ''Node.js'', ''SQL'', ''Machine Learning'']),
         (''Design'', [''UI/UX Design'', ''Graphic Design'', ''Figma'', ''Adobe Creative Suite'']),
         (''Analytics'', [''Data Analysis'', ''Excel'', ''Tableau'', ''Google Analytics'']),
         (''Management'', [''Project Management'', ''Leadership'', ''Communication'']),
         (''Marketing'', [''Digital Marketing'', ''Content Writing'']) ]"
  by code_simp

theorem C4_suggestions_exclude_selected_witness:
  "getAvailableSkillSuggestions demo_selection \<noteq> []
   \<and> ''React'' \<in> set (selectedSkills demo_selection)
   \<and> ''React'' \<notin> name `
         (\<Union>(cat, skills) \<in> set (getAvailableSkillSuggestions demo_selection). set skills)"
proof -
  have ne: "getAvailableSkillSuggestions demo_selection \<noteq> []"
    using demo_suggestions by auto
  have sel: "''React'' \<in> set (selectedSkills demo_selection)"
    by (simp add: demo_selection_def)
  show ?thesis
    using ne sel C4_suggestions_exclude_selected [of demo_selection] by fastforce
qed

text \<open>
  C8. \<^verbatim>\<open>getAvailableSkillSuggestions\<close> is a function of its inputs alone: two states of the
  page with the same selected interests and the same selected skills give the same
  suggestions, whatever the rest of the state is. (The function returns a value and
  changes no state.)
\<close>

theorem C8_suggestions_deterministic:
  "selectedInterests s = selectedInterests s' \<Longrightarrow> selectedSkills s = selectedSkills s'
     \<Longrightarrow> getAvailableSkillSuggestions s = getAvailableSkillSuggestions s'"
  by (simp add: getAvailableSkillSuggestions_def)

definition page1 :: career_page where
  "page1 =
    \<lparr>selectedSkills = [''React''], selectedInterests = [''Design''],
     customSkill = ''Go'', customInterest = [],
     showAssessment = False, currentStep = 0, answers = [], showResults = False,
     isLoading = False, targetRole = ''Data Scientist''\<rparr>"

definition page2 :: career_page where
  "page2 =
    \<lparr>selectedSkills = [''React''], selectedInterests = [''Design''],
     customSkill = [], customInterest = ''Art'',
     showAssessment = True, currentStep = 3, answers = [(1, ''5''), (2, ''1'')],
     showResults = False, isLoading = True, targetRole = ''UX Designer''\<rparr>"

theorem C8_suggestions_deterministic_witness:
  "page1 \<noteq> page2
   \<and> getAvailableSkillSuggestions page1 = getAvailableSkillSuggestions page2"
proof -
  have i: "selectedInterests page1 = selectedInterests page2"
    by (simp add: page1_def page2_def)
  have k: "selectedSkills page1 = selectedSkills page2"
    by (simp add: page1_def page2_def)
  have "page1 \<noteq> page2"
    by (simp add: page1_def page2_def)
  then show ?thesis
    using C8_suggestions_deterministic [OF i k] by simp
qed


section \<open>Properties of the write routes\<close>

text \<open>
  A required field is missing when it is absent or falsy (\<^verbatim>\<open>null\<close>, \<^verbatim>\<open>false\<close>, \<^verbatim>\<open>0\<close>,
  \<^verbatim>\<open>""\<close>): this is what the handlers test with \<^verbatim>\<open>!field\<close>. For the messages of the chat
  save route, a value of length 0 is missing too.
\<close>

definition missing :: "json option \<Rightarrow> bool" where
  "missing v \<longleftrightarrow> \<not> truthy_opt v"

definition chat_save_missing :: "json \<Rightarrow> bool" where
  "chat_save_missing b \<longleftrightarrow>
     missing (get_member b ''userId'') \<or> missing (get_member b ''conversationId'')
     \<or> no_messages (get_member b ''messages'')"

definition lesson_save_missing :: "json \<Rightarrow> bool" where
  "lesson_save_missing b \<longleftrightarrow>
     missing (get_member b ''lesson_id'') \<or> missing (get_member b ''user_id'')
     \<or> missing (get_member b ''file_name'')"

text \<open>A body of the form \<^verbatim>\<open>{message|error}\<close>: an object with a member of one of the names.\<close>

fun has_message_or_error :: "json \<Rightarrow> bool" where
  "has_message_or_error (JObj ms) = (''message'' \<in> fst ` set ms \<or> ''error'' \<in> fst ` set ms)"
| "has_message_or_error _ = False"

fun db_failed :: "db_result \<Rightarrow> bool" where
  "db_failed (Inserted d) = False"
| "db_failed (DbError m) = True"
| "db_failed (DbThrows m) = True"

text \<open>
  The log line of the chat save route cannot be built when the conversion of \<^verbatim>\<open>userId\<close>
  or of \<^verbatim>\<open>conversationId\<close> to a string throws.
\<close>

definition chat_save_log_throws :: "json \<Rightarrow> bool" where
  "chat_save_log_throws b \<longleftrightarrow>
     to_string_throws_opt (get_member b ''userId'')
     \<or> to_string_throws_opt (get_member b ''conversationId'')"

lemma chat_save_status:
  "b \<noteq> JNull \<Longrightarrow>
     status (chat_save_POST (Some b))
       = (if chat_save_missing b then 400 else if chat_save_log_throws b then 500 else 200)"
  by (cases b)
     (simp_all add: chat_save_POST_def chat_save_missing_def chat_save_log_throws_def
        missing_def Let_def chat_save_catch_def json_response_def json_response_status_def)

lemma chat_save_body: "has_message_or_error (body (chat_save_POST r))"
  by (simp add: chat_save_POST_def Let_def chat_save_catch_def json_response_def
      json_response_status_def message_body_def split: option.split json.split)

lemma chat_save_toString_member:
  "chat_save_POST (Some (JObj
      [(''userId'', JObj [(''toString'', JNum 1)]), (''conversationId'', JStr ''c1''),
       (''messages'', JArr [JStr ''hi''])]))
     = json_response_status (message_body ''Failed to save conversation'') 500"
  by (simp add: chat_save_POST_def chat_save_catch_def)

lemma lesson_save_result:
  "b \<noteq> JNull \<Longrightarrow> db \<noteq> DbThrows ThrownNullish \<Longrightarrow>
     \<exists>r. lesson_save_POST (Some b) db = Inr r
       \<and> status r = (if lesson_save_missing b then 400 else if db_failed db then 500 else 200)
       \<and> has_message_or_error (body r)"
  by (cases b; cases db)
     (simp_all add: lesson_save_POST_def lesson_save_missing_def missing_def Let_def
        json_response_status_def message_body_def split: thrown.split)

lemma chat_upload_status:
  "status (chat_upload_POST (Some form) params uuid1 uuid2)
     = (if entry_truthy (map_of form ''file'') then 200 else 400)"
  by (simp add: chat_upload_POST_def Let_def json_response_def json_response_status_def)

lemma chat_upload_body: "has_message_or_error (body (chat_upload_POST f params uuid1 uuid2))"
  by (simp add: chat_upload_POST_def Let_def json_response_def json_response_status_def
      split: option.split)

text \<open>
  C6 (as stated, refuted). A request whose body is JSON \<^verbatim>\<open>null\<close> carries none of the
  required fields, yet the chat save route answers it with 500, not 400; so it does a
  request whose body is not JSON at all, and so does the chat upload route when the form
  data cannot be read. The lesson save route reads the body outside its \<^verbatim>\<open>try\<close> block and
  produces no response of its own for such a request.
\<close>

theorem C6_unreadable_body_counterexample:
  "chat_save_missing JNull
   \<and> status (chat_save_POST (Some JNull)) = 500
   \<and> status (chat_save_POST None) = 500
   \<and> status (chat_upload_POST None [] ''id1'' ''id2'') = 500
   \<and> lesson_save_POST (Some JNull) (Inserted (Some (JArr []))) = Inl UnhandledException"
  by (simp add: chat_save_POST_def chat_save_catch_def chat_upload_POST_def
      lesson_save_POST_def json_response_status_def chat_save_missing_def missing_def)

text \<open>
  C6 (amended). For a request whose JSON body was read and is not \<^verbatim>\<open>null\<close>: the chat save
  route answers 400 exactly when \<^verbatim>\<open>userId\<close> or \<^verbatim>\<open>conversationId\<close> is missing or
  \<^verbatim>\<open>messages\<close> is missing or of length 0, and 500 exactly when none is missing and
  \<^verbatim>\<open>userId\<close> or \<^verbatim>\<open>conversationId\<close> cannot be converted to a string for the log line; the
  lesson save route answers 400 exactly when \<^verbatim>\<open>lesson_id\<close>, \<^verbatim>\<open>user_id\<close> or \<^verbatim>\<open>file_name\<close>
  is missing, and 500 exactly when none is missing and the insert fails (with an error,
  or with an exception other than \<^verbatim>\<open>null\<close> or \<^verbatim>\<open>undefined\<close>). For a request
  whose form data was read, the chat upload route answers 400 exactly when the \<^verbatim>\<open>file\<close>
  entry is missing, and never 500. Every one of these responses has a body with a
  \<^verbatim>\<open>message\<close> or an \<^verbatim>\<open>error\<close> member.
\<close>

theorem C6_write_endpoints:
  assumes "b \<noteq> JNull" and "db \<noteq> DbThrows ThrownNullish"
  shows "(status (chat_save_POST (Some b)) = 400 \<longleftrightarrow> chat_save_missing b)
    \<and> (status (chat_save_POST (Some b)) = 500
          \<longleftrightarrow> \<not> chat_save_missing b \<and> chat_save_log_throws b)
    \<and> has_message_or_error (body (chat_save_POST (Some b)))
    \<and> (\<exists>r. lesson_save_POST (Some b) db = Inr r
          \<and> (status r = 400 \<longleftrightarrow> lesson_save_missing b)
          \<and> (status r = 500 \<longleftrightarrow> \<not> lesson_save_missing b \<and> db_failed db)
          \<and> has_message_or_error (body r))
    \<and> (status (chat_upload_POST (Some form) params uuid1 uuid2) = 400
          \<longleftrightarrow> \<not> entry_truthy (map_of form ''file''))
    \<and> status (chat_upload_POST (Some form) params uuid1 uuid2) \<noteq> 500
    \<and> has_message_or_error (body (chat_upload_POST (Some form) params uuid1 uuid2))"
proof -
  from assms(1)
  have cs: "status (chat_save_POST (Some b))
      = (if chat_save_missing b then 400 else if chat_save_log_throws b then 500 else 200)"
    by (rule chat_save_status)
  from assms obtain r where r: "lesson_save_POST (Some b) db = Inr r"
    "status r = (if lesson_save_missing b then 400 else if db_failed db then 500 else 200)"
    "has_message_or_error (body r)"
    using lesson_save_result [of b db] by blast
  have ls: "\<exists>r. lesson_save_POST (Some b) db = Inr r
          \<and> (status r = 400 \<longleftrightarrow> lesson_save_missing b)
          \<and> (status r = 500 \<longleftrightarrow> \<not> lesson_save_missing b \<and> db_failed db)
          \<and> has_message_or_error (body r)"
    using r by (intro exI [of _ r]) simp
  show ?thesis
    using cs ls by (simp add: chat_save_body chat_upload_status chat_upload_body)
qed

text \<open>
  A body with every field of both JSON routes but an empty list of messages: the chat
  save route answers 400, the lesson save route reaches the insert and reports its
  failure as 500.
\<close>

definition demo_save :: json where
  "demo_save =
    JObj [(''userId'', JStr ''u1''), (''conversationId'', JStr ''c1''), (''messages'', JArr []),
          (''lesson_id'', JStr ''l1''), (''user_id'', JStr ''u1''),
          (''file_name'', JStr ''notes.pdf'')]"

theorem C6_write_endpoints_witness:
  "demo_save \<noteq> JNull
   \<and> chat_save_missing demo_save
   \<and> status (chat_save_POST (Some demo_save)) = 400
   \<and> \<not> lesson_save_missing demo_save
   \<and> DbError (Some (JStr ''duplicate key'')) \<noteq> DbThrows ThrownNullish
   \<and> (\<exists>r. lesson_save_POST (Some demo_save) (DbError (Some (JStr ''duplicate key''))) = Inr r
          \<and> status r = 500 \<and> has_message_or_error (body r))
   \<and> status (chat_upload_POST (Some [(''note'', FormText ''x'')]) [] ''id1'' ''id2'') = 400"
proof -
  have h: "demo_save \<noteq> JNull"
    by (simp add: demo_save_def)
  have m: "chat_save_missing demo_save"
    by (simp add: demo_save_def chat_save_missing_def missing_def)
  have l: "\<not> lesson_save_missing demo_save"
    by (simp add: demo_save_def lesson_save_missing_def missing_def)
  have d: "DbError (Some (JStr ''duplicate key'')) \<noteq> DbThrows ThrownNullish"
    by simp
  show ?thesis
    using h m l
      C6_write_endpoints [OF h d, of "[(''note'', FormText ''x'')]" "[]" "''id1''" "''id2''"]
    by auto
qed


section \<open>Properties of the skills route\<close>

lemma set_foldl_set_add: "set (foldl set_add acc xs) = set acc \<union> set xs"
  by (induction xs arbitrary: acc) (auto simp: set_add_def)

lemma primitives_foldl_set_add:
  "distinct (filter is_primitive acc)
     \<Longrightarrow> distinct (filter is_primitive (foldl set_add acc xs))"
  by (induction xs arbitrary: acc) (simp_all add: set_add_def)


lemma set_array_from_set: "set (array_from_set xs) = set xs"
  by (simp add: array_from_set_def set_foldl_set_add)

lemma primitives_array_from_set: "distinct (filter is_primitive (array_from_set xs))"
  by (simp add: array_from_set_def primitives_foldl_set_add)



lemma array_from_set_strings:
  "list_all is_primitive xs \<Longrightarrow> distinct (array_from_set xs)"
proof -
  assume "list_all is_primitive xs"
  then have "list_all is_primitive (array_from_set xs)"
    by (simp add: list_all_iff set_array_from_set)
  then have "filter is_primitive (array_from_set xs) = array_from_set xs"
    by (simp add: list_all_iff)
  then show ?thesis
    using primitives_array_from_set [of xs] by simp
qed














text \<open>
  Further outcomes: a string under the \<^verbatim>\<open>skills\<close> key is spread into its characters, a
  number cannot be spread, and replies that are not ok leave nothing to combine.
\<close>

lemma skills_GET_string_member:
  "skills_GET (Response True (Some (JObj [(''skills'', JStr ''abca'')]))) (Response False None)
     = json_response \<lparr>skills = [JStr ''a'', JStr ''b'', JStr ''c'']\<rparr>"
  by (simp add: skills_GET_def read_and_spread_def array_from_set_def set_add_def
      is_continuation_def)

lemma skills_GET_number_member:
  "skills_GET (Response True (Some (JObj [(''skills'', JNum 5)]))) (Response True (Some (JArr ys)))
     = json_response_status \<lparr>skills = fallbackSkills\<rparr> 500"
  by (simp add: skills_GET_def read_and_spread_def)

lemma skills_GET_not_ok:
  "skills_GET (Response False b) (Response False b')
     = json_response \<lparr>skills = fallbackSkills\<rparr>"
  by (simp add: skills_GET_def read_and_spread_def array_from_set_def)


section \<open>Properties of the dashboard and of the interests route\<close>

text \<open>
  A request has failed when the fetch rejects, the response is not ok, or its body cannot
  be read; the backend is unreachable when both requests of the dashboard fail.
\<close>

fun request_failed :: "'a fetch_result \<Rightarrow> bool" where
  "request_failed FetchRejects = True"
| "request_failed (Response ok b) = (\<not> ok \<or> b = None)"

definition backend_unreachable :: "backend \<Rightarrow> bool" where
  "backend_unreachable be \<longleftrightarrow>
     request_failed (progress_request be) \<and> request_failed (recommendations_request be)"

definition unreachable_backend :: backend where
  "unreachable_backend =
    \<lparr>progress_request = FetchRejects, recommendations_request = FetchRejects\<rparr>"

lemma fetch_or_null_failed: "request_failed r \<Longrightarrow> fetch_or_null r = None"
  by (cases r) auto

lemma combined_unreachable:
  "backend_unreachable be \<Longrightarrow>
     merge_recommendations
       (merge_progress generateMockData (getUserProgress (progress_request be)))
       (getRecommendations (recommendations_request be)) = generateMockData"
  by (simp add: backend_unreachable_def getUserProgress_def getRecommendations_def
      fetch_or_null_failed merge_progress_def merge_recommendations_def)

lemma fetchDashboardData_unreachable:
  "backend_unreachable be \<Longrightarrow>
     fetchDashboardData user_id be showRefreshToast s =
       (if \<not> string_truthy user_id then
          s\<lparr>dashboardData := Some generateMockData, loading := False\<rparr>
        else
          s\<lparr>dashboardData := Some generateMockData, loading := False, error := None,
            isRefreshing := False,
            toasts := (if showRefreshToast then toasts s @
                      [\<lparr>toast_title = ''Dashboard Updated'',
                        toast_description =
                          ''Your dashboard data has been refreshed successfully.''\<rparr>]
                       else toasts s)\<rparr>)"
  by (simp add: fetchDashboardData_def Let_def combined_unreachable)

text \<open>
  C5 (as stated, refuted). A signed-in user loads the dashboard while both requests
  reject. The page ends with the mock data, no error and no toast: nothing marks the
  data as demo data (and \<open>DashboardData\<close> has no field that could). The interests route,
  when its fetch rejects, answers 500, with the fallback list and no \<^verbatim>\<open>source\<close> member.
\<close>

theorem C5_no_demo_flag_counterexample:
  "dashboardData (fetchDashboardData (Some ''u1'') unreachable_backend False initial_state)
     = Some generateMockData
   \<and> toasts (fetchDashboardData (Some ''u1'') unreachable_backend False initial_state) = []
   \<and> error (fetchDashboardData (Some ''u1'') unreachable_backend False initial_state) = None
   \<and> status (interests_GET FetchRejects) = 500
   \<and> get_member (body (interests_GET FetchRejects)) ''source'' = None"
proof -
  have u: "backend_unreachable unreachable_backend"
    by (simp add: backend_unreachable_def unreachable_backend_def)
  show ?thesis
    by (simp add: fetchDashboardData_unreachable [OF u] initial_state_def
        interests_catch_def json_response_status_def)
qed

text \<open>
  C5 (amended). When both requests of the dashboard fail, \<^verbatim>\<open>fetchDashboardData\<close> completes:
  the page shows exactly the mock data and is no longer loading; for a signed-in user
  the error is cleared (without a session it is left as it was); on a load that is not
  a refresh no toast is shown. The interests route answers an upstream response that is
  not ok with status 200 and the fallback interests, marked \<^verbatim>\<open>source: "fallback"\<close>.
\<close>

theorem C5_dashboard_degrades_to_mock:
  assumes "backend_unreachable be"
  shows "dashboardData (fetchDashboardData user_id be showRefreshToast s) = Some generateMockData
    \<and> \<not> loading (fetchDashboardData user_id be showRefreshToast s)
    \<and> error (fetchDashboardData user_id be showRefreshToast s)
        = (if string_truthy user_id then None else error s)
    \<and> toasts (fetchDashboardData user_id be False s) = toasts s
    \<and> status (interests_GET (Response False b)) = 200
    \<and> body (interests_GET (Response False b))
        = JObj [(''interests'', fallbackInterests), (''source'', JStr ''fallback'')]"
  by (simp add: fetchDashboardData_unreachable [OF assms] json_response_def)

definition failing_backend :: backend where
  "failing_backend =
    \<lparr>progress_request = FetchRejects, recommendations_request = Response False None\<rparr>"

theorem C5_dashboard_degrades_to_mock_witness:
  "backend_unreachable failing_backend
   \<and> dashboardData (fetchDashboardData (Some ''u1'') failing_backend True initial_state)
       = Some generateMockData
   \<and> error (fetchDashboardData (Some ''u1'') failing_backend True initial_state) = None
   \<and> \<not> loading (fetchDashboardData (Some ''u1'') failing_backend True initial_state)"
proof -
  have u: "backend_unreachable failing_backend"
    by (simp add: backend_unreachable_def failing_backend_def)
  show ?thesis
    using u C5_dashboard_degrades_to_mock [OF u, of "Some ''u1''" True initial_state]
    by simp
qed

text \<open>
  With a backend that answers, the replies are merged over the mock data: members of the
  reply replace those of the mock data, everything else stays.
\<close>

lemma spread_key_order:
  "spread [(''title'', JNull), (''date'', JNull)]
          [(''date'', JNum 1), (''10'', JNum 2), (''kind'', JNum 3), (''9'', JNum 4)]
     = [(''9'', JNum 4), (''10'', JNum 2), (''title'', JNull), (''date'', JNum 1),
        (''kind'', JNum 3)]"
  by (simp add: spread_def enumerated_before_def is_digit_def decimal_value_def)

lemma fetchDashboardData_merges:
  "dashboardData (fetchDashboardData (Some ''u1'')
      \<lparr>progress_request = Response True (Some
          \<lparr>pr_progress = Some [(''current_streak'', JNum 3)],
           pr_recent_activity = Some (JArr []), pr_achievements = None\<rparr>),
       recommendations_request = FetchRejects\<rparr> False initial_state)
   = Some (generateMockData
       \<lparr>progress := record_put (progress generateMockData) ''current_streak'' (JNum 3),
        recent_activity := JArr []\<rparr>)"
  by (simp add: fetchDashboardData_def Let_def getUserProgress_def getRecommendations_def
      merge_progress_def merge_recommendations_def spread_def)

end
